theory Spec2Isabelle
  imports Complex_Main "HOL-Library.AList" "HOL-Library.Sublist"
begin

section \<open>Data model\<close>

text \<open>
  Python strings are sequences of Unicode code points; a character is modelled by its code
  point, so that \<open>len\<close> and slicing count what Python counts. Dictionary keys of the
  program are ASCII identifiers and are kept as HOL strings. Python floats are modelled by
  the rational number they denote, a decimal literal by the decimal it writes.

  Character classes: white space is the full set of \<open>str.isspace\<close>. The case properties
  that \<open>str.isupper\<close> reads and the alphanumeric characters that \<open>\w\<close> matches are those
  of the interpreter's character database, for every code point: the database is no part
  of the repository and is a parameter of the operations that read it. The digits of
  \<open>int()\<close> are those of ASCII; Python also accepts the decimal digits of other scripts
  there. Case mapping is exact wherever its result contains an ASCII character, which is
  all that a comparison with an ASCII literal can see.
\<close>

type_synonym pychar = nat
type_synonym pystr = "pychar list"

definition ascii :: "string \<Rightarrow> pystr" where
  "ascii s = map of_char s"

datatype pyval =
    VNone
  | VBool bool
  | VInt int
  | VNum rat
  | VStr pystr
  | VList "pyval list"
  | VDict "(string \<times> pyval) list"

text \<open>
  A dict is an association list in insertion order; \<open>d[k] = v\<close> is \<open>AList.update\<close>
  (the value is replaced in place when the key is present, appended otherwise),
  \<open>k in d\<close> is \<open>has_key\<close> and \<open>d[k]\<close> is \<open>map_of d k\<close>, \<open>None\<close> standing for KeyError.
\<close>

type_synonym pydict = "(string \<times> pyval) list"

definition has_key :: "string \<Rightarrow> pydict \<Rightarrow> bool" where
  "has_key k d = (map_of d k \<noteq> None)"

text \<open>\<open>d.update(other)\<close>.\<close>

definition dict_update :: "pydict \<Rightarrow> pydict \<Rightarrow> pydict" where
  "dict_update d other = foldl (\<lambda>acc (k, v). AList.update k v acc) d other"

datatype pyexc =
    ValueError pystr
  | KeyError string
  | TypeError
  | IndexError

text \<open>\<open>str(e)\<close>; only the ValueError messages are spelled out.\<close>

fun exc_str :: "pyexc \<Rightarrow> pystr" where
  "exc_str (ValueError msg) = msg"
| "exc_str (KeyError k) = ascii ([CHR 0x27] @ k @ [CHR 0x27])"
| "exc_str TypeError = ascii ''TypeError''"
| "exc_str IndexError = ascii ''list index out of range''"

text \<open>Sequencing of computations that may raise: the first exception ends the run.\<close>

definition exc_bind :: "pyexc + 'a \<Rightarrow> ('a \<Rightarrow> pyexc + 'b) \<Rightarrow> pyexc + 'b" where
  "exc_bind m f = (case m of Inl e \<Rightarrow> Inl e | Inr x \<Rightarrow> f x)"

text \<open>The value under key \<open>k\<close> of the dict an operation returned; nothing when it raised.\<close>

definition result_field :: "string \<Rightarrow> pyexc + pydict \<Rightarrow> pyval option" where
  "result_field k r = (case r of Inl e \<Rightarrow> None | Inr d \<Rightarrow> map_of d k)"

section \<open>Strings and numbers of the Python runtime\<close>

definition is_space :: "pychar \<Rightarrow> bool" where
  "is_space c = ((9 \<le> c \<and> c \<le> 13) \<or> (28 \<le> c \<and> c \<le> 32) \<or> c = 133 \<or> c = 160 \<or> c = 5760
      \<or> (8192 \<le> c \<and> c \<le> 8202) \<or> c = 8232 \<or> c = 8233 \<or> c = 8239 \<or> c = 8287 \<or> c = 12288)"

definition is_digit :: "pychar \<Rightarrow> bool" where
  "is_digit c = (48 \<le> c \<and> c \<le> 57)"

definition is_upper :: "pychar \<Rightarrow> bool" where
  "is_upper c = (65 \<le> c \<and> c \<le> 90)"

definition is_lower :: "pychar \<Rightarrow> bool" where
  "is_lower c = (97 \<le> c \<and> c \<le> 122)"

text \<open>
  The properties of a code point in the interpreter's character database: upper case, lower
  case, title case and alphanumeric (\<open>Py_UNICODE_ISUPPER\<close>, \<open>Py_UNICODE_ISLOWER\<close>,
  \<open>Py_UNICODE_ISTITLE\<close> and \<open>Py_UNICODE_ISALNUM\<close>).
\<close>

record char_table =
  char_isupper :: "pychar \<Rightarrow> bool"
  char_islower :: "pychar \<Rightarrow> bool"
  char_istitle :: "pychar \<Rightarrow> bool"
  char_isalnum :: "pychar \<Rightarrow> bool"

text \<open>\<open>\w\<close> in a pattern for strings: an alphanumeric character or the underscore.\<close>

definition is_word :: "char_table \<Rightarrow> pychar \<Rightarrow> bool" where
  "is_word U c = (char_isalnum U c \<or> c = 95)"

text \<open>\<open>s.strip()\<close> and \<open>s.split()\<close> without arguments.\<close>

definition strip :: "pystr \<Rightarrow> pystr" where
  "strip s = rev (dropWhile is_space (rev (dropWhile is_space s)))"

fun split_acc :: "pystr \<Rightarrow> pystr \<Rightarrow> pystr list" where
  "split_acc cur [] = (if cur = [] then [] else [cur])"
| "split_acc cur (c # cs) =
     (if is_space c then (if cur = [] then split_acc [] cs else cur # split_acc [] cs)
      else split_acc (cur @ [c]) cs)"

definition split_ws :: "pystr \<Rightarrow> pystr list" where
  "split_ws s = split_acc [] s"

text \<open>\<open>s.lower()\<close> and \<open>s.upper()\<close>. The code points listed are the only ones outside
  ASCII whose image contains an ASCII character.\<close>

definition lower_c :: "pychar \<Rightarrow> pystr" where
  "lower_c c = (if is_upper c then [c + 32]
     else if c = 304 then [105, 775]
     else if c = 8490 then [107]
     else [c])"

definition upper_c :: "pychar \<Rightarrow> pystr" where
  "upper_c c = (if is_lower c then [c - 32]
     else if c = 223 then [83, 83]
     else if c = 305 then [73]
     else if c = 329 then [700, 78]
     else if c = 383 then [83]
     else if c = 496 then [74, 780]
     else if c = 7830 then [72, 817]
     else if c = 7831 then [84, 776]
     else if c = 7832 then [87, 778]
     else if c = 7833 then [89, 778]
     else if c = 7834 then [65, 702]
     else if c = 64256 then [70, 70]
     else if c = 64257 then [70, 73]
     else if c = 64258 then [70, 76]
     else if c = 64259 then [70, 70, 73]
     else if c = 64260 then [70, 70, 76]
     else if c = 64261 \<or> c = 64262 then [83, 84]
     else [c])"

definition lower :: "pystr \<Rightarrow> pystr" where
  "lower s = concat (map lower_c s)"

definition upper :: "pystr \<Rightarrow> pystr" where
  "upper s = concat (map upper_c s)"

text \<open>\<open>s.isupper()\<close>: a string of one character is upper case when the character is;
  any other string when it has no lower-case and no title-case character and has an
  upper-case one.\<close>

definition str_isupper :: "char_table \<Rightarrow> pystr \<Rightarrow> bool" where
  "str_isupper U s =
     (if length s = 1 then char_isupper U (hd s)
      else (\<forall>c \<in> set s. \<not> char_islower U c \<and> \<not> char_istitle U c)
         \<and> (\<exists>c \<in> set s. char_isupper U c))"

text \<open>
  \<open>int(s)\<close> in base 10: surrounding white space, an optional sign, then digits with single
  underscores between them. A literal of more than 4300 digits is refused (the
  interpreter's default limit for integer string conversion).
\<close>

fun int_digits :: "pystr \<Rightarrow> int \<Rightarrow> int option" where
  "int_digits [] acc = Some acc"
| "int_digits (c # cs) acc =
     (if is_digit c then int_digits cs (acc * 10 + int (c - 48))
      else if c = 95 then
        (case cs of
           [] \<Rightarrow> None
         | d # ds \<Rightarrow> if is_digit d then int_digits ds (acc * 10 + int (d - 48)) else None)
      else None)"

definition int_unsigned :: "pystr \<Rightarrow> int option" where
  "int_unsigned s =
     (case s of
        [] \<Rightarrow> None
      | c # cs \<Rightarrow> if is_digit c then int_digits cs (int (c - 48)) else None)"

definition int_error :: "pystr \<Rightarrow> pyexc" where
  "int_error s = ValueError (ascii ''invalid literal for int() with base 10: '' @ [39] @ s @ [39])"

definition py_int :: "pystr \<Rightarrow> pyexc + int" where
  "py_int s =
     (let t = strip s;
          neg = (t \<noteq> [] \<and> hd t = 45);
          body = (if t \<noteq> [] \<and> (hd t = 43 \<or> hd t = 45) then tl t else t)
      in case int_unsigned body of
           None \<Rightarrow> Inl (int_error s)
         | Some v \<Rightarrow>
             if length (filter is_digit body) > 4300
             then Inl (ValueError (ascii ''Exceeds the limit (4300 digits) for integer string conversion''))
             else Inr (if neg then - v else v))"

text \<open>
  \<open>round(x, n)\<close> of a float: the decimal with \<open>n\<close> places nearest to the value, a tie
  going to the even neighbour. \<open>round(i, n)\<close> of an int with \<open>n \<ge> 0\<close> is \<open>i\<close>.
\<close>

definition round_half_even :: "rat \<Rightarrow> int" where
  "round_half_even x =
     (let f = \<lfloor>x\<rfloor>; d = x - of_int f
      in if d < 1 / 2 then f
         else if d > 1 / 2 then f + 1
         else if even f then f else f + 1)"

definition py_round :: "rat \<Rightarrow> nat \<Rightarrow> rat" where
  "py_round x n = of_int (round_half_even (x * 10 ^ n)) / 10 ^ n"

fun round_val :: "pyval \<Rightarrow> nat \<Rightarrow> pyval" where
  "round_val (VNum x) n = VNum (py_round x n)"
| "round_val v n = v"

text \<open>The numbers \<open>sum\<close> adds up: ints, floats and bools; anything else is a TypeError.\<close>

fun num_of :: "pyval \<Rightarrow> rat option" where
  "num_of (VInt i) = Some (of_int i)"
| "num_of (VNum x) = Some x"
| "num_of (VBool b) = Some (if b then 1 else 0)"
| "num_of v = None"

fun py_sum :: "pyval list \<Rightarrow> pyexc + rat" where
  "py_sum [] = Inr 0"
| "py_sum (v # vs) =
     (case num_of v of
        None \<Rightarrow> Inl TypeError
      | Some x \<Rightarrow> exc_bind (py_sum vs) (\<lambda>s. Inr (x + s)))"

text \<open>\<open>xs[-n:]\<close> for a list and an integer \<open>n\<close>: Python reads a negative start from the
  end and clamps it at 0; \<open>-0\<close> is \<open>0\<close>, the start of the list.\<close>

definition slice_from :: "int \<Rightarrow> 'a list \<Rightarrow> 'a list" where
  "slice_from start xs =
     (let n = int (length xs);
          i = (if start < 0 then max (n + start) 0 else min start n)
      in drop (nat i) xs)"

definition last_n :: "int \<Rightarrow> 'a list \<Rightarrow> 'a list" where
  "last_n n xs = slice_from (- n) xs"

section \<open>Result Normalizer and analysis pipeline (models/model.py)\<close>

text \<open>\<open>SentimentAnalyzer._process_result\<close> on the raw output \<open>{'label': label, 'score': score}\<close>.
  The emoji are the code points of the source's glyphs.\<close>

definition process_result :: "pystr \<Rightarrow> rat \<Rightarrow> pyexc + pydict" where
  "process_result label score =
     (if sublist (ascii ''star'') (lower label) then
        (case split_ws label of
           [] \<Rightarrow> Inl IndexError
         | tok # _ \<Rightarrow>
             (case py_int tok of
                Inl e \<Rightarrow> Inl e
              | Inr stars \<Rightarrow>
                  let (sentiment, emoji, sentiment_score) =
                        (if stars \<le> 2 then (ascii ''NEGATIVE'', [128532], VNum (- score))
                         else if stars = 3 then (ascii ''NEUTRAL'', [128528], VInt 0)
                         else (ascii ''POSITIVE'', [128522], VNum score))
                  in Inr [(''sentiment'', VStr sentiment),
                          (''confidence'', VNum (py_round score 4)),
                          (''stars'', VInt stars),
                          (''emoji'', VStr emoji),
                          (''sentiment_score'', round_val sentiment_score 4),
                          (''raw_label'', VStr label)]))
      else
        (let (sentiment, emoji, stars, sentiment_score) =
               (if upper label = ascii ''POSITIVE'' \<or> label = ascii ''LABEL_1''
                then (ascii ''POSITIVE'', [128522], if score > 9 / 10 then 4 else 5, VNum score)
                else (ascii ''NEGATIVE'', [128532], if score > 9 / 10 then 2 else 1, VNum (- score)))
         in Inr [(''sentiment'', VStr sentiment),
                 (''confidence'', VNum (py_round score 4)),
                 (''stars'', VInt stars),
                 (''emoji'', VStr emoji),
                 (''sentiment_score'', round_val sentiment_score 4),
                 (''raw_label'', VStr label)]))"

text \<open>
  The classifier is the external function \<open>self.model\<close>: on a text it either raises, with
  the message \<open>str(e)\<close>, or returns a label and a score. The texts it is called on are
  logged in \<open>calls\<close>, so that being invoked is observable. \<open>elapsed\<close> is the reading of
  \<open>time.time() - start_time\<close>.
\<close>

type_synonym classifier = "pystr \<Rightarrow> pystr + (pystr \<times> rat)"

definition empty_text_error :: pyexc where
  "empty_text_error = ValueError (ascii ''El texto no puede estar vac'' @ [237] @ ascii ''o'')"

definition analyze :: "classifier \<Rightarrow> rat \<Rightarrow> pystr \<Rightarrow> pystr list \<Rightarrow> (pyexc + pydict) \<times> pystr list" where
  "analyze model elapsed text calls =
     (if text = [] \<or> length (strip text) = 0 then (Inl empty_text_error, calls)
      else
        let text_truncated = (if length text > 500 then take 500 text else text);
            calls1 = calls @ [text_truncated];
            failure = (\<lambda>msg. [(''error'', VStr msg),
                               (''text_original'', VStr text),
                               (''processing_time'', VNum (py_round elapsed 3))])
        in case model text_truncated of
             Inl msg \<Rightarrow> (Inr (failure msg), calls1)
           | Inr (label, score) \<Rightarrow>
               (case process_result label score of
                  Inl e \<Rightarrow> (Inr (failure (exc_str e)), calls1)
                | Inr sentiment_data \<Rightarrow>
                    (Inr (dict_update sentiment_data
                            [(''text_original'', VStr text),
                             (''text_analyzed'', VStr text_truncated),
                             (''text_truncated'', VBool (length text > 500)),
                             (''text_length'', VInt (int (length text))),
                             (''processing_time'', VNum (py_round elapsed 3))]),
                     calls1)))"

text \<open>\<open>SentimentAnalyzer.analyze_batch\<close>; \<open>elapsed i\<close> is the clock reading for item \<open>i\<close>.\<close>

fun analyze_batch_from ::
  "classifier \<Rightarrow> (nat \<Rightarrow> rat) \<Rightarrow> nat \<Rightarrow> pystr list \<Rightarrow> pystr list \<Rightarrow> pydict list \<times> pystr list" where
  "analyze_batch_from model elapsed i [] calls = ([], calls)"
| "analyze_batch_from model elapsed i (text # texts) calls =
     (let (outcome, calls1) = analyze model (elapsed i) text calls;
          item = (case outcome of
                    Inr result \<Rightarrow> AList.update ''index'' (VInt (int i)) result
                  | Inl e \<Rightarrow>
                      [(''index'', VInt (int i)),
                       (''error'', VStr (exc_str e)),
                       (''text_original'',
                          VStr (if length text > 100 then take 100 text @ ascii ''...'' else text))]);
          (results, calls2) = analyze_batch_from model elapsed (Suc i) texts calls1
      in (item # results, calls2))"

definition analyze_batch ::
  "classifier \<Rightarrow> (nat \<Rightarrow> rat) \<Rightarrow> pystr list \<Rightarrow> pystr list \<Rightarrow> pydict list \<times> pystr list" where
  "analyze_batch model elapsed texts calls = analyze_batch_from model elapsed 0 texts calls"

section \<open>History Store and Statistics Aggregator (data/data\_loader.py)\<close>

text \<open>
  \<open>DataManager.save_analysis\<close>: the timestamp \<open>now\<close> is the reading of
  \<open>datetime.now().isoformat()\<close>. Writing the file is outside the model: its failure is
  caught and printed and \<open>self.history\<close> is not changed by it.
\<close>

definition save_analysis :: "pystr \<Rightarrow> pydict \<Rightarrow> pydict list \<Rightarrow> pydict list" where
  "save_analysis now result history =
     (let history1 = history @ [AList.update ''timestamp'' (VStr now) result]
      in if length history1 > 1000 then last_n 1000 history1 else history1)"

text \<open>A sequence of appends, each with its own timestamp.\<close>

fun save_all :: "(pystr \<times> pydict) list \<Rightarrow> pydict list \<Rightarrow> pydict list" where
  "save_all [] history = history"
| "save_all ((now, result) # rest) history = save_all rest (save_analysis now result history)"

definition stamped :: "(pystr \<times> pydict) list \<Rightarrow> pydict list" where
  "stamped = map (\<lambda>(now, result). AList.update ''timestamp'' (VStr now) result)"

text \<open>\<open>DataManager.get_recent_analyses\<close>.\<close>

definition get_recent_analyses :: "int \<Rightarrow> pydict list \<Rightarrow> pydict list" where
  "get_recent_analyses limit history = (if history \<noteq> [] then last_n limit history else [])"

text \<open>Helpers of the two reducers: \<open>[r[k] for r in rs]\<close>, \<open>xs.count(v)\<close> and
  \<open>round(c / n * 100, 2)\<close>.\<close>

definition lookup :: "string \<Rightarrow> pydict \<Rightarrow> pyexc + pyval" where
  "lookup k d = (case map_of d k of None \<Rightarrow> Inl (KeyError k) | Some v \<Rightarrow> Inr v)"

fun column :: "string \<Rightarrow> pydict list \<Rightarrow> pyexc + pyval list" where
  "column k [] = Inr []"
| "column k (r # rs) =
     exc_bind (lookup k r) (\<lambda>v. exc_bind (column k rs) (\<lambda>vs. Inr (v # vs)))"

definition py_count :: "pyval \<Rightarrow> pyval list \<Rightarrow> int" where
  "py_count v xs = int (length (filter (\<lambda>x. x = v) xs))"

definition percentage :: "int \<Rightarrow> nat \<Rightarrow> pyval" where
  "percentage c n = VNum (py_round (of_int c / of_nat n * 100) 2)"

definition average :: "pyval list \<Rightarrow> nat \<Rightarrow> pyexc + pyval" where
  "average xs places =
     (if xs \<noteq> [] then
        exc_bind (py_sum xs) (\<lambda>s. Inr (VNum (py_round (s / of_nat (length xs)) places)))
      else Inr (VInt 0))"

text \<open>\<open>DataManager.get_statistics\<close> on \<open>self.history\<close>. The statistics file it writes is
  outside the model.\<close>

definition get_statistics :: "pydict list \<Rightarrow> pyexc + pydict" where
  "get_statistics history =
     (if history = [] then
        Inr [(''total_analyzed'', VInt 0),
             (''message'', VStr (ascii ''No hay datos hist'' @ [243] @ ascii ''ricos a'' @ [250] @ ascii ''n''))]
      else
        let valid_results = filter (has_key ''sentiment'') history
        in if valid_results = [] then
             Inr [(''total_analyzed'', VInt (int (length history))),
                  (''valid_results'', VInt 0),
                  (''errors'', VInt (int (length history)))]
           else
             exc_bind (column ''sentiment'' valid_results) (\<lambda>sentiments.
             exc_bind (column ''confidence'' valid_results) (\<lambda>confidences.
             exc_bind (column ''stars'' (filter (has_key ''stars'') valid_results)) (\<lambda>stars.
             exc_bind (column ''processing_time'' (filter (has_key ''processing_time'') valid_results))
               (\<lambda>processing_times.
             exc_bind (average confidences 4) (\<lambda>average_confidence.
             exc_bind (average stars 2) (\<lambda>average_stars.
             exc_bind (average processing_times 3) (\<lambda>average_processing_time.
             exc_bind (lookup ''timestamp'' (last valid_results)) (\<lambda>last_analysis.
                  Inr [(''total_analyzed'', VInt (int (length history))),
                       (''valid_results'', VInt (int (length valid_results))),
                       (''errors'', VInt (int (length history) - int (length valid_results))),
                       (''sentiments'',
                          VDict [(''positive'', VInt (py_count (VStr (ascii ''POSITIVE'')) sentiments)),
                                 (''negative'', VInt (py_count (VStr (ascii ''NEGATIVE'')) sentiments)),
                                 (''neutral'', VInt (py_count (VStr (ascii ''NEUTRAL'')) sentiments))]),
                       (''percentages'',
                          VDict [(''positive'', percentage (py_count (VStr (ascii ''POSITIVE'')) sentiments) (length sentiments)),
                                 (''negative'', percentage (py_count (VStr (ascii ''NEGATIVE'')) sentiments) (length sentiments)),
                                 (''neutral'', percentage (py_count (VStr (ascii ''NEUTRAL'')) sentiments) (length sentiments))]),
                       (''average_confidence'', average_confidence),
                       (''average_stars'', average_stars),
                       (''average_processing_time'', average_processing_time),
                       (''last_analysis'', last_analysis)])))))))))"

section \<open>Text Normalizer (utils/preprocessing.py)\<close>

text \<open>\<open>self.emoji_dict\<close>, in the order of the source.\<close>

definition emoji_dict :: "(pystr \<times> pystr) list" where
  "emoji_dict =
     [([128522], ascii ''feliz''),
      ([128515], ascii ''feliz''),
      ([128516], ascii ''muy feliz''),
      ([128513], ascii ''muy feliz''),
      ([128525], ascii ''amor''),
      ([10084, 65039], ascii ''amor''),
      ([128532], ascii ''triste''),
      ([128546], ascii ''triste''),
      ([128557], ascii ''muy triste''),
      ([128545], ascii ''enojado''),
      ([128544], ascii ''enojado''),
      ([128548], ascii ''frustrado''),
      ([128077], ascii ''bien''),
      ([128078], ascii ''mal''),
      ([11088], ascii ''estrella''),
      ([10024], ascii ''excelente''),
      ([128148], ascii ''decepcion''),
      ([129326], ascii ''asco''),
      ([128528], ascii ''neutral''),
      ([128529], ascii ''neutral''),
      ([128580], ascii ''molesto'')]"

text \<open>\<open>text.replace(old, new)\<close> for a non-empty \<open>old\<close>: every occurrence, left to right,
  without overlap.\<close>

function str_replace :: "pystr \<Rightarrow> pystr \<Rightarrow> pystr \<Rightarrow> pystr" where
  "str_replace old new [] = []"
| "str_replace old new (c # cs) =
     (if old \<noteq> [] \<and> prefix old (c # cs)
      then new @ str_replace old new (drop (length old) (c # cs))
      else c # str_replace old new cs)"
  by pat_completeness auto
termination
  by (relation "measure (\<lambda>(old, new, text). length text)") auto

definition convert_emojis :: "pystr \<Rightarrow> pystr" where
  "convert_emojis text =
     foldl (\<lambda>t (emoji, word). str_replace emoji ([32] @ word @ [32]) t) text emoji_dict"

text \<open>
  \<open>re.sub\<close> with a pattern that never matches the empty string: \<open>m\<close> gives, at a
  position, the length of the match that starts there and its replacement; matches are
  taken leftmost and without overlap.
\<close>

fun re_sub :: "(pystr \<Rightarrow> (nat \<times> pystr) option) \<Rightarrow> pystr \<Rightarrow> pystr" where
  "re_sub m [] = []"
| "re_sub m (c # cs) =
     (case m (c # cs) of
        Some (Suc n, replacement) \<Rightarrow> replacement @ re_sub m (drop n cs)
      | _ \<Rightarrow> c # re_sub m cs)"

text \<open>
  The character alternatives of the URL pattern: \<open>[a-zA-Z]\<close>, \<open>[0-9]\<close>, \<open>[$-_@.&+]\<close>
  (the range from \<open>$\<close> to \<open>_\<close>) and \<open>[!*\\(\\),]\<close>. The last alternative, a percent
  escape, starts with a character of the third, so it is never reached.
\<close>

definition is_url_char :: "pychar \<Rightarrow> bool" where
  "is_url_char c = (is_lower c \<or> is_upper c \<or> is_digit c
      \<or> (36 \<le> c \<and> c \<le> 95) \<or> c = 64 \<or> c = 46 \<or> c = 38 \<or> c = 43
      \<or> c = 33 \<or> c = 42 \<or> c = 92 \<or> c = 40 \<or> c = 41 \<or> c = 44)"

definition url_tail :: "pystr \<Rightarrow> nat \<Rightarrow> (nat \<times> pystr) option" where
  "url_tail s n =
     (if prefix (ascii ''://'') s \<and> takeWhile is_url_char (drop 3 s) \<noteq> []
      then Some (n + 3 + length (takeWhile is_url_char (drop 3 s)), [])
      else None)"

text \<open>\<open>http[s]?://(?:...)+\<close>: the optional \<open>s\<close> is tried first, then skipped.\<close>

definition match_url :: "pystr \<Rightarrow> (nat \<times> pystr) option" where
  "match_url s =
     (if prefix (ascii ''http'') s then
        (let r = drop 4 s
         in if r \<noteq> [] \<and> hd r = 115 \<and> url_tail (tl r) 5 \<noteq> None then url_tail (tl r) 5
            else url_tail r 4)
      else None)"

text \<open>\<open>@\w+\<close>, replaced by nothing, and \<open>#(\w+)\<close>, replaced by its group.\<close>

definition match_mention :: "char_table \<Rightarrow> pystr \<Rightarrow> (nat \<times> pystr) option" where
  "match_mention U s =
     (case s of
        [] \<Rightarrow> None
      | c # cs \<Rightarrow>
          if c = 64 \<and> takeWhile (is_word U) cs \<noteq> []
          then Some (1 + length (takeWhile (is_word U) cs), [])
          else None)"

definition match_hashtag :: "char_table \<Rightarrow> pystr \<Rightarrow> (nat \<times> pystr) option" where
  "match_hashtag U s =
     (case s of
        [] \<Rightarrow> None
      | c # cs \<Rightarrow>
          if c = 35 \<and> takeWhile (is_word U) cs \<noteq> []
          then Some (1 + length (takeWhile (is_word U) cs), takeWhile (is_word U) cs)
          else None)"

text \<open>\<open><.*?>\<close>: from \<open><\<close> to the first \<open>>\<close>, with no line feed in between.\<close>

definition match_tag :: "pystr \<Rightarrow> (nat \<times> pystr) option" where
  "match_tag s =
     (case s of
        [] \<Rightarrow> None
      | c # cs \<Rightarrow>
          (let inner = takeWhile (\<lambda>x. x \<noteq> 62 \<and> x \<noteq> 10) cs;
               after = drop (length inner) cs
           in if c = 60 \<and> after \<noteq> [] \<and> hd after = 62
              then Some (1 + length inner + 1, [])
              else None))"

text \<open>\<open>\s+\<close>, replaced by one space.\<close>

definition match_spaces :: "pystr \<Rightarrow> (nat \<times> pystr) option" where
  "match_spaces s =
     (if takeWhile is_space s \<noteq> [] then Some (length (takeWhile is_space s), [32]) else None)"

text \<open>\<open>TextPreprocessor.clean_text\<close>.\<close>

definition clean_text :: "char_table \<Rightarrow> pystr \<Rightarrow> pystr" where
  "clean_text U text0 =
     (if text0 = [] then []
      else
        let text1 = convert_emojis text0;
            text2 = re_sub match_url text1;
            text3 = re_sub (match_mention U) text2;
            text4 = re_sub (match_hashtag U) text3;
            text5 = re_sub match_tag text4;
            text6 = re_sub match_spaces text5
        in strip text6)"

text \<open>\<open>(.)\1{2,}\<close> is found: three equal characters in a row, not line feeds.\<close>

fun repeated_chars :: "pystr \<Rightarrow> bool" where
  "repeated_chars (a # b # c # cs) = ((a \<noteq> 10 \<and> a = b \<and> b = c) \<or> repeated_chars (b # c # cs))"
| "repeated_chars cs = False"

text \<open>\<open>TextPreprocessor.extract_features\<close>; \<open>c.isupper()\<close> is \<open>str.isupper\<close> on the
  string of the one character \<open>c\<close>.\<close>

definition extract_features :: "char_table \<Rightarrow> pystr \<Rightarrow> pydict" where
  "extract_features U text =
     [(''length'', VInt (int (length text))),
      (''word_count'', VInt (int (length (split_ws text)))),
      (''exclamation_count'', VInt (int (count_list text 33))),
      (''question_count'', VInt (int (count_list text 63))),
      (''uppercase_ratio'',
         VNum (of_nat (length (filter (\<lambda>c. str_isupper U [c]) text))
                 / of_nat (max (length text) 1))),
      (''has_emoji'', VBool (list_ex (\<lambda>(emoji, word). sublist emoji text) emoji_dict)),
      (''repeated_chars'', VBool (repeated_chars text)),
      (''all_caps'', VBool (str_isupper U text \<and> length text > 3))]"

section \<open>HTTP endpoints (main.py)\<close>

text \<open>\<open>calculate_batch_stats\<close>.\<close>

definition calculate_batch_stats :: "pydict list \<Rightarrow> pyexc + pydict" where
  "calculate_batch_stats results =
     (let valid_results = filter (has_key ''sentiment'') results
      in if valid_results = [] then Inr []
         else
           exc_bind (column ''sentiment'' valid_results) (\<lambda>sentiments.
           exc_bind (column ''confidence'' valid_results) (\<lambda>confidences.
           exc_bind (average confidences 4) (\<lambda>average_confidence.
              Inr [(''total'', VInt (int (length results))),
                   (''valid'', VInt (int (length valid_results))),
                   (''errors'', VInt (int (length results) - int (length valid_results))),
                   (''sentiments'',
                      VDict [(''positive'', VInt (py_count (VStr (ascii ''POSITIVE'')) sentiments)),
                             (''negative'', VInt (py_count (VStr (ascii ''NEGATIVE'')) sentiments)),
                             (''neutral'', VInt (py_count (VStr (ascii ''NEUTRAL'')) sentiments))]),
                   (''average_confidence'', average_confidence),
                   (''percentages'',
                      VDict [(''positive'', percentage (py_count (VStr (ascii ''POSITIVE'')) sentiments) (length sentiments)),
                             (''negative'', percentage (py_count (VStr (ascii ''NEGATIVE'')) sentiments) (length sentiments)),
                             (''neutral'', percentage (py_count (VStr (ascii ''NEUTRAL'')) sentiments) (length sentiments))])]))))"

text \<open>
  The state the endpoints share: \<open>data_manager.history\<close> and the log of classifier calls.
  A request body is read with its fields typed: \<open>text\<close> a string, \<open>texts\<close> a list of
  strings and \<open>preprocess\<close> a boolean; a field is \<open>None\<close> when the body is empty or lacks
  the key. A response is a status code and a JSON body.
\<close>

record app =
  history :: "pydict list"
  calls :: "pystr list"

record request =
  req_text :: "pystr option"
  req_texts :: "pystr list option"
  req_preprocess :: "bool option"

type_synonym response = "nat \<times> pydict"

definition error_body :: "pystr \<Rightarrow> string \<Rightarrow> pydict" where
  "error_body msg code = [(''error'', VStr msg), (''code'', VStr (ascii code))]"

definition metadata :: "bool \<Rightarrow> pydict" where
  "metadata preprocess = [(''preprocessed'', VBool preprocess), (''api_version'', VStr (ascii ''1.0.0''))]"

text \<open>\<open>analyze_text\<close>, the handler of \<open>POST /api/analyze\<close>. \<open>save_analysis\<close> adds the
  timestamp to the very dict that is then returned.\<close>

definition analyze_text ::
  "char_table \<Rightarrow> classifier \<Rightarrow> rat \<Rightarrow> pystr \<Rightarrow> request \<Rightarrow> app \<Rightarrow> response \<times> app" where
  "analyze_text U model elapsed now req st =
     (case req_text req of
        None \<Rightarrow> ((400, error_body (ascii ''No se proporcion'' @ [243] @ ascii '' texto para analizar'') ''MISSING_TEXT''), st)
      | Some text \<Rightarrow>
          let preprocess = (case req_preprocess req of None \<Rightarrow> True | Some b \<Rightarrow> b)
          in if length text > 5000 then
               ((400, error_body (ascii ''El texto excede el l'' @ [237] @ ascii ''mite de 5000 caracteres'') ''TEXT_TOO_LONG''), st)
             else
               let text_processed = (if preprocess then clean_text U text else text);
                   (outcome, calls1) = analyze model elapsed text_processed (calls st)
               in (case outcome of
                     Inl e \<Rightarrow>
                       ((500, error_body (exc_str e) ''ANALYSIS_ERROR''), st\<lparr>calls := calls1\<rparr>)
                   | Inr result \<Rightarrow>
                       ((200, [(''success'', VBool True),
                               (''result'', VDict (AList.update ''timestamp'' (VStr now) result)),
                               (''metadata'', VDict (metadata preprocess))]),
                        st\<lparr>calls := calls1, history := save_analysis now result (history st)\<rparr>)))"


text \<open>A fixed classifier and a fixed clock, to run the operations on concrete inputs: the
  classifier answers \<open>POSITIVE\<close> with score 0.9 on every text and no time elapses.\<close>

definition sample_model :: classifier where
  "sample_model text = Inr (ascii ''POSITIVE'', 9 / 10)"

definition no_delay :: "nat \<Rightarrow> rat" where
  "no_delay i = 0"

text \<open>The properties of the ASCII characters, where the letters \<open>A\<close> to \<open>Z\<close> are upper
  case, \<open>a\<close> to \<open>z\<close> lower case, none is title case and the letters and digits are
  alphanumeric; no character outside ASCII has a property in this table.\<close>

definition ascii_table :: char_table where
  "ascii_table = \<lparr>char_isupper = is_upper, char_islower = is_lower, char_istitle = (\<lambda>c. False),
                   char_isalnum = (\<lambda>c. is_upper c \<or> is_lower c \<or> is_digit c)\<rparr>"

text \<open>A history of one valid record and one error record.\<close>

definition sample_history :: "pydict list" where
  "sample_history =
     [[(''sentiment'', VStr (ascii ''POSITIVE'')), (''confidence'', VNum (9 / 10)),
       (''timestamp'', VStr (ascii ''2024-01-01T00:00:00''))],
      [(''error'', VStr (ascii ''boom'')), (''text_original'', VStr (ascii ''ok'')),
       (''timestamp'', VStr (ascii ''2024-01-01T00:00:01''))]]"

section \<open>History Store: retention and recent analyses\<close>

lemma last_n_pos: "0 < n \<Longrightarrow> last_n n xs = drop (length xs - nat n) xs"
  by (auto simp: last_n_def slice_from_def Let_def max_def nat_diff_distrib'
           intro: arg_cong2[where f = drop])

lemma last_n_zero: "last_n 0 xs = xs"
  by (simp add: last_n_def slice_from_def)

lemma save_analysis_eq:
  "save_analysis now r h =
     drop (Suc (length h) - 1000) (h @ [AList.update ''timestamp'' (VStr now) r])"
  by (simp add: save_analysis_def Let_def last_n_pos)

lemma stamped_Nil: "stamped [] = []"
  by (simp add: stamped_def)

lemma stamped_Cons:
  "stamped ((now, r) # rest) = AList.update ''timestamp'' (VStr now) r # stamped rest"
  by (simp add: stamped_def)

lemma length_stamped: "length (stamped ops) = length ops"
  by (simp add: stamped_def)

lemma drop_drop_append:
  "k \<le> length ys \<Longrightarrow> drop a (drop k ys @ zs) = drop (a + k) (ys @ zs)"
  by (simp add: add.commute)

lemma save_all_eq:
  "save_all ops h =
     (if ops = [] then h else drop (length h + length ops - 1000) (h @ stamped ops))"
proof (induction ops arbitrary: h)
  case Nil
  then show ?case by simp
next
  case (Cons p rest)
  obtain now r where p: "p = (now, r)" by (cases p)
  define x where "x = AList.update ''timestamp'' (VStr now) r"
  define k where "k = Suc (length h) - 1000"
  have st: "stamped (p # rest) = x # stamped rest"
    by (simp add: stamped_Cons p x_def)
  have sa: "save_analysis now r h = drop k (h @ [x])"
    by (simp add: save_analysis_eq x_def k_def)
  show ?case
  proof (cases "rest = []")
    case True
    then show ?thesis by (simp add: p sa k_def x_def stamped_Nil stamped_Cons)
  next
    case False
    have kle: "k \<le> length (h @ [x])" by (simp add: k_def)
    have len: "length (drop k (h @ [x])) + length rest - 1000 + k = length h + length (p # rest) - 1000"
      by (simp add: k_def)
    have "save_all (p # rest) h = save_all rest (drop k (h @ [x]))"
      by (simp add: p sa)
    also have "\<dots> = drop (length (drop k (h @ [x])) + length rest - 1000)
                     (drop k (h @ [x]) @ stamped rest)"
      using False by (simp only: Cons.IH if_False)
    also have "\<dots> = drop (length (drop k (h @ [x])) + length rest - 1000 + k) ((h @ [x]) @ stamped rest)"
      by (rule drop_drop_append [OF kle])
    also have "\<dots> = drop (length h + length (p # rest) - 1000) (h @ stamped (p # rest))"
      by (simp only: len st append_assoc append_Cons append_Nil)
    finally show ?thesis by simp
  qed
qed

text \<open>
  Claim C3. After any non-empty sequence of appends, from any history, the history holds
  at most 1000 records and is the chronological sequence of the old records followed by
  the appended ones, with records removed from its front only: the oldest go first and the
  survivors keep their order. Appending 1001 records to the empty history leaves exactly
  the last 1000 of them: the first is evicted and the newest is the last one kept.
\<close>

theorem history_bounded_fifo:
  assumes "ops \<noteq> []"
  shows "length (save_all ops h) \<le> 1000
       \<and> save_all ops h = drop (length (h @ stamped ops) - 1000) (h @ stamped ops)
       \<and> (h = [] \<and> length ops = 1001 \<longrightarrow>
            save_all ops h = tl (stamped ops)
          \<and> length (save_all ops h) = 1000
          \<and> last (save_all ops h) = last (stamped ops))"
proof -
  have eq: "save_all ops h = drop (length (h @ stamped ops) - 1000) (h @ stamped ops)"
    using assms by (simp add: save_all_eq stamped_def)
  have len: "length (save_all ops h) \<le> 1000"
    by (simp add: eq stamped_def)
  have special: "save_all ops h = tl (stamped ops) \<and> length (save_all ops h) = 1000
      \<and> last (save_all ops h) = last (stamped ops)"
    if h: "h = []" and n: "length ops = 1001"
  proof -
    have ls: "length (stamped ops) = 1001"
      using n by (simp add: stamped_def)
    have one: "save_all ops h = drop 1 (stamped ops)"
      using eq by (simp add: h ls)
    have "length (drop 1 (stamped ops)) = 1000"
      using ls by simp
    moreover have "last (drop 1 (stamped ops)) = last (stamped ops)"
      using ls by (simp add: last_drop)
    ultimately show ?thesis
      by (simp add: one drop_Suc)
  qed
  from eq len special show ?thesis by blast
qed

theorem history_bounded_fifo_witness:
  "map (\<lambda>i. (ascii ''t'', [(''n'', VInt (int i))])) [0..<1001] \<noteq> []
   \<and> ([] :: pydict list) = []
   \<and> length (map (\<lambda>i. (ascii ''t'', [(''n'', VInt (int i))])) [0..<1001]) = 1001
   \<and> length (save_all (map (\<lambda>i. (ascii ''t'', [(''n'', VInt (int i))])) [0..<1001]) []) = 1000
   \<and> save_all (map (\<lambda>i. (ascii ''t'', [(''n'', VInt (int i))])) [0..<1001]) []
       = tl (stamped (map (\<lambda>i. (ascii ''t'', [(''n'', VInt (int i))])) [0..<1001]))"
proof -
  define ops :: "(pystr \<times> pydict) list"
    where "ops = map (\<lambda>i. (ascii ''t'', [(''n'', VInt (int i))])) [0..<1001]"
  have n: "length ops = 1001"
    unfolding ops_def by (simp only: length_map length_upt diff_zero)
  have ne: "ops \<noteq> []"
    using n by auto
  have "ops \<noteq> [] \<and> ([] :: pydict list) = [] \<and> length ops = 1001
      \<and> length (save_all ops []) = 1000 \<and> save_all ops [] = tl (stamped ops)"
    using history_bounded_fifo [OF ne, of "[]"] ne n by blast
  then show ?thesis
    unfolding ops_def .
qed

text \<open>
  Claim C5. \<open>get_recent_analyses\<close> with limit 0 on a history of one record returns that
  record: \<open>self.history[-0:]\<close> is the whole list, where the claim requires the empty
  sequence.
\<close>

theorem recent_zero_returns_whole_log:
  "get_recent_analyses 0 [[(''sentiment'', VStr (ascii ''POSITIVE''))]]
     = [[(''sentiment'', VStr (ascii ''POSITIVE''))]]"
  by (simp add: get_recent_analyses_def last_n_zero)

text \<open>For a positive limit the result is as documented: the last \<open>limit\<close> records in
  order, the whole history when there are fewer, nothing when it is empty.\<close>

lemma recent_positive:
  "0 < limit \<Longrightarrow> get_recent_analyses limit h = drop (length h - nat limit) h"
  by (simp add: get_recent_analyses_def last_n_pos)

section \<open>Result Normalizer: the two label schemes\<close>

text \<open>Evaluation of \<open>round\<close> on decimal literals, and two facts about it: a value with
  at most \<open>n\<close> decimal places is left as it is, and rounding commutes with negation.\<close>

lemma floor_rat_numeral:
  "\<lfloor>numeral a / numeral b :: rat\<rfloor> = numeral a div numeral b"
  by (metis floor_divide_of_int_eq of_int_numeral)

lemma floor_rat_neg_numeral:
  "\<lfloor>- (numeral a / numeral b) :: rat\<rfloor> = - numeral a div numeral b"
  by (metis divide_minus_left floor_divide_of_int_eq of_int_neg_numeral of_int_numeral)

lemmas round_eval = py_round_def round_half_even_def Let_def floor_rat_numeral floor_rat_neg_numeral
lemmas label_eval = ascii_def lower_def lower_c_def upper_def upper_c_def is_upper_def is_lower_def
  sublist_Cons_right split_ws_def is_space_def
lemmas int_eval = py_int_def strip_def is_space_def int_unsigned_def is_digit_def

lemma round_half_even_of_int: "round_half_even (of_int k) = k"
  by (simp add: round_half_even_def)

lemma py_round_exact:
  assumes "x * 10 ^ n = of_int k"
  shows "py_round x n = x"
proof -
  have "py_round x n = of_int k / 10 ^ n"
    by (simp add: py_round_def assms round_half_even_of_int)
  also have "\<dots> = x * 10 ^ n / 10 ^ n"
    by (simp only: assms)
  also have "\<dots> = x"
    by simp
  finally show ?thesis .
qed

lemma round_half_even_minus: "round_half_even (- x) = - round_half_even x"
proof (cases "x = of_int \<lfloor>x\<rfloor>")
  case True
  then obtain k where "x = of_int k" ..
  then show ?thesis
    by (simp add: round_half_even_of_int flip: of_int_minus)
next
  case False
  define f where "f = \<lfloor>x\<rfloor>"
  define d where "d = x - of_int f"
  have le: "of_int f \<le> x"
    unfolding f_def by (rule of_int_floor_le)
  have hi: "x < of_int f + 1"
    unfolding f_def using floor_correct [of x] by simp
  have lo: "of_int f < x"
    using le False unfolding f_def by (metis less_le)
  have d0: "0 < d" and d1: "d < 1"
    using lo hi by (simp_all add: d_def)
  have fl: "\<lfloor>- x\<rfloor> = - f - 1"
    by (rule floor_unique) (use lo hi in simp_all)
  have dneg: "- x - of_int (- f - 1) = 1 - d"
    by (simp add: d_def)
  show ?thesis
    unfolding round_half_even_def Let_def fl f_def[symmetric] dneg d_def[symmetric]
    using d0 d1 by auto
qed

lemma py_round_minus: "py_round (- x) n = - py_round x n"
  by (simp add: py_round_def round_half_even_minus)

text \<open>A label that mentions \<open>star\<close> has a first token, so \<open>label.split()[0]\<close> does not
  raise IndexError.\<close>

lemma lower_c_115: "115 \<in> set (lower_c c) \<Longrightarrow> \<not> is_space c"
  by (auto simp: lower_c_def is_space_def is_upper_def split: if_splits)

lemma split_acc_nonempty: "cur \<noteq> [] \<or> (\<exists>c \<in> set s. \<not> is_space c) \<Longrightarrow> split_acc cur s \<noteq> []"
  by (induction s arbitrary: cur) auto

lemma star_label_has_token:
  assumes "sublist (ascii ''star'') (lower label)"
  shows "split_ws label \<noteq> []"
proof -
  have "set (ascii ''star'') \<subseteq> set (lower label)"
    using assms by (rule set_mono_sublist)
  then have "115 \<in> set (lower label)"
    by (simp add: ascii_def)
  then obtain c where "c \<in> set label" "115 \<in> set (lower_c c)"
    by (auto simp: lower_def)
  then have "\<exists>c \<in> set label. \<not> is_space c"
    using lower_c_115 by blast
  then show ?thesis
    by (simp add: split_ws_def split_acc_nonempty)
qed


text \<open>
  Claim C1, as amended. For a label that contains \<open>star\<close> in any case and whose first
  token is an integer literal \<open>stars\<close>, the record has: sentiment NEGATIVE and
  sentiment\_score \<open>- round(score, 4)\<close> when \<open>stars \<le> 2\<close>; sentiment NEUTRAL and
  sentiment\_score the integer 0 when \<open>stars = 3\<close>; sentiment POSITIVE and sentiment\_score
  \<open>round(score, 4)\<close> otherwise; and in every case confidence \<open>round(score, 4)\<close> and the
  parsed stars. The sentiment score is the rounded score with its sign, not the score.
\<close>

theorem star_label_normalized:
  assumes "sublist (ascii ''star'') (lower label)"
    and "split_ws label = tok # rest"
    and "py_int tok = Inr stars"
  shows "process_result label score = Inr
     [(''sentiment'', VStr (if stars \<le> 2 then ascii ''NEGATIVE''
                            else if stars = 3 then ascii ''NEUTRAL'' else ascii ''POSITIVE'')),
      (''confidence'', VNum (py_round score 4)),
      (''stars'', VInt stars),
      (''emoji'', VStr (if stars \<le> 2 then [128532] else if stars = 3 then [128528] else [128522])),
      (''sentiment_score'', (if stars \<le> 2 then VNum (- py_round score 4)
                             else if stars = 3 then VInt 0 else VNum (py_round score 4))),
      (''raw_label'', VStr label)]"
  using assms by (simp add: process_result_def py_round_minus)

theorem star_label_normalized_witness:
  "sublist (ascii ''star'') (lower (ascii ''2 Stars''))
   \<and> split_ws (ascii ''2 Stars'') = [ascii ''2'', ascii ''Stars'']
   \<and> py_int (ascii ''2'') = Inr 2
   \<and> process_result (ascii ''2 Stars'') (87654321 / 100000000) = Inr
       [(''sentiment'', VStr (ascii ''NEGATIVE'')),
        (''confidence'', VNum (8765 / 10000)),
        (''stars'', VInt 2),
        (''emoji'', VStr [128532]),
        (''sentiment_score'', VNum (- (8765 / 10000))),
        (''raw_label'', VStr (ascii ''2 Stars''))]"
proof -
  have a: "sublist (ascii ''star'') (lower (ascii ''2 Stars''))"
    by (simp add: label_eval)
  have b: "split_ws (ascii ''2 Stars'') = [ascii ''2'', ascii ''Stars'']"
    by (simp add: label_eval)
  have c: "py_int (ascii ''2'') = Inr 2"
    by (simp add: int_eval ascii_def)
  have r: "py_round (87654321 / 100000000) 4 = 8765 / 10000"
    by (simp add: round_eval)
  show ?thesis
    using star_label_normalized [OF a b c, of "87654321 / 100000000"] a b c
    by (simp add: r)
qed

text \<open>Claim C1 as stated fails: for the label \<open>1 star\<close> and the score 0.123456 the
  sentiment score is \<open>-0.1235\<close>, not \<open>-0.123456\<close>.\<close>

theorem star_label_score_not_negated_score:
  "sublist (ascii ''star'') (lower (ascii ''1 star''))
   \<and> (0::rat) \<le> 123456 / 1000000 \<and> (123456 / 1000000 :: rat) \<le> 1
   \<and> result_field ''stars'' (process_result (ascii ''1 star'') (123456 / 1000000)) = Some (VInt 1)
   \<and> result_field ''sentiment_score'' (process_result (ascii ''1 star'') (123456 / 1000000))
        \<noteq> Some (VNum (- (123456 / 1000000)))"
proof -
  have a: "sublist (ascii ''star'') (lower (ascii ''1 star''))"
    by (simp add: label_eval)
  have b: "split_ws (ascii ''1 star'') = [ascii ''1'', ascii ''star'']"
    by (simp add: label_eval)
  have c: "py_int (ascii ''1'') = Inr 1"
    by (simp add: int_eval ascii_def)
  have r: "py_round (- (123456 / 1000000)) 4 = - (1235 / 10000)"
    by (simp add: round_eval)
  have "process_result (ascii ''1 star'') (123456 / 1000000) = Inr
       [(''sentiment'', VStr (ascii ''NEGATIVE'')),
        (''confidence'', VNum (py_round (123456 / 1000000) 4)),
        (''stars'', VInt 1),
        (''emoji'', VStr [128532]),
        (''sentiment_score'', VNum (- (1235 / 10000))),
        (''raw_label'', VStr (ascii ''1 star''))]"
    using a by (simp add: process_result_def b c round_eval)
  then show ?thesis
    using a by (simp add: result_field_def)
qed


lemma not_star_POSITIVE: "\<not> sublist (ascii ''star'') (lower (ascii ''POSITIVE''))"
  by (simp add: label_eval)

lemma upper_POSITIVE: "upper (ascii ''POSITIVE'') = ascii ''POSITIVE''"
  by (simp add: label_eval)

text \<open>
  Claim C2, as amended. For a label that does not contain \<open>star\<close>: when it is POSITIVE
  up to case, or is \<open>LABEL_1\<close>, the record has sentiment POSITIVE, 4 stars when
  \<open>score > 0.9\<close> and 5 otherwise, and sentiment\_score \<open>round(score, 4)\<close>; for any other
  label it has sentiment NEGATIVE, 2 stars when \<open>score > 0.9\<close> and 1 otherwise, and
  sentiment\_score \<open>- round(score, 4)\<close>. The label POSITIVE gives 4 stars with score 0.95
  and 5 stars with score 0.5.
\<close>

theorem polarity_label_normalized:
  assumes "\<not> sublist (ascii ''star'') (lower label)"
  shows "process_result label score = Inr
     [(''sentiment'', VStr (if upper label = ascii ''POSITIVE'' \<or> label = ascii ''LABEL_1''
                            then ascii ''POSITIVE'' else ascii ''NEGATIVE'')),
      (''confidence'', VNum (py_round score 4)),
      (''stars'', VInt (if upper label = ascii ''POSITIVE'' \<or> label = ascii ''LABEL_1''
                        then (if score > 9 / 10 then 4 else 5)
                        else (if score > 9 / 10 then 2 else 1))),
      (''emoji'', VStr (if upper label = ascii ''POSITIVE'' \<or> label = ascii ''LABEL_1''
                        then [128522] else [128532])),
      (''sentiment_score'', VNum (if upper label = ascii ''POSITIVE'' \<or> label = ascii ''LABEL_1''
                                  then py_round score 4 else - py_round score 4)),
      (''raw_label'', VStr label)]
   \<and> result_field ''stars'' (process_result (ascii ''POSITIVE'') (95 / 100)) = Some (VInt 4)
   \<and> result_field ''stars'' (process_result (ascii ''POSITIVE'') (5 / 10)) = Some (VInt 5)"
proof -
  have general: "process_result label score = Inr
     [(''sentiment'', VStr (if upper label = ascii ''POSITIVE'' \<or> label = ascii ''LABEL_1''
                            then ascii ''POSITIVE'' else ascii ''NEGATIVE'')),
      (''confidence'', VNum (py_round score 4)),
      (''stars'', VInt (if upper label = ascii ''POSITIVE'' \<or> label = ascii ''LABEL_1''
                        then (if score > 9 / 10 then 4 else 5)
                        else (if score > 9 / 10 then 2 else 1))),
      (''emoji'', VStr (if upper label = ascii ''POSITIVE'' \<or> label = ascii ''LABEL_1''
                        then [128522] else [128532])),
      (''sentiment_score'', VNum (if upper label = ascii ''POSITIVE'' \<or> label = ascii ''LABEL_1''
                                  then py_round score 4 else - py_round score 4)),
      (''raw_label'', VStr label)]"
    using assms by (simp add: process_result_def py_round_minus)
  have high: "result_field ''stars'' (process_result (ascii ''POSITIVE'') (95 / 100)) = Some (VInt 4)"
    by (simp add: process_result_def not_star_POSITIVE upper_POSITIVE result_field_def)
  have low: "result_field ''stars'' (process_result (ascii ''POSITIVE'') (5 / 10)) = Some (VInt 5)"
    by (simp add: process_result_def not_star_POSITIVE upper_POSITIVE result_field_def)
  from general high low show ?thesis by (intro conjI)
qed

theorem polarity_label_normalized_witness:
  "\<not> sublist (ascii ''star'') (lower (ascii ''LABEL_0''))
   \<and> process_result (ascii ''LABEL_0'') (95 / 100) = Inr
       [(''sentiment'', VStr (ascii ''NEGATIVE'')),
        (''confidence'', VNum (95 / 100)),
        (''stars'', VInt 2),
        (''emoji'', VStr [128532]),
        (''sentiment_score'', VNum (- (95 / 100))),
        (''raw_label'', VStr (ascii ''LABEL_0''))]"
proof -
  have a: "\<not> sublist (ascii ''star'') (lower (ascii ''LABEL_0''))"
    by (simp add: label_eval)
  have u: "upper (ascii ''LABEL_0'') \<noteq> ascii ''POSITIVE''"
    by (simp add: label_eval)
  have l: "ascii ''LABEL_0'' \<noteq> ascii ''LABEL_1''"
    by (simp add: ascii_def)
  have r: "py_round (95 / 100) 4 = 95 / 100"
    by (simp add: round_eval)
  have "process_result (ascii ''LABEL_0'') (95 / 100) = Inr
       [(''sentiment'', VStr (ascii ''NEGATIVE'')),
        (''confidence'', VNum (py_round (95 / 100) 4)),
        (''stars'', VInt 2),
        (''emoji'', VStr [128532]),
        (''sentiment_score'', VNum (- py_round (95 / 100) 4)),
        (''raw_label'', VStr (ascii ''LABEL_0''))]"
    using polarity_label_normalized [OF a, of "95 / 100"] u l by simp
  then show ?thesis
    using a by (simp only: r simp_thms)
qed

text \<open>Claim C2 as stated fails: for the label \<open>POSITIVE\<close> and the score 0.123456 the
  sentiment score is \<open>0.1235\<close>, not \<open>0.123456\<close>.\<close>

theorem polarity_label_score_not_score:
  "\<not> sublist (ascii ''star'') (lower (ascii ''POSITIVE''))
   \<and> upper (ascii ''POSITIVE'') = ascii ''POSITIVE''
   \<and> result_field ''sentiment'' (process_result (ascii ''POSITIVE'') (123456 / 1000000))
        = Some (VStr (ascii ''POSITIVE''))
   \<and> result_field ''sentiment_score'' (process_result (ascii ''POSITIVE'') (123456 / 1000000))
        \<noteq> Some (VNum (123456 / 1000000))"
  by (simp add: process_result_def not_star_POSITIVE upper_POSITIVE result_field_def round_eval)

section \<open>Text features\<close>

lemmas feature_eval = extract_features_def ascii_def is_upper_def is_lower_def str_isupper_def

text \<open>
  Claim C4, as amended. With the case properties of the ASCII characters as Python has
  them, \<open>extract_features\<close> on \<open>ALL CAPS!!!\<close> gives all\_caps true, exclamation\_count 3
  and uppercase\_ratio 7/11: the seven upper-case letters over the length 11 of the text,
  in which the space and the punctuation count. For every text, of any script, the
  uppercase ratio is the number of upper-case characters over \<open>max(len(text), 1)\<close>, so 0
  for the empty text, and all\_caps is true exactly when \<open>text.isupper()\<close> holds and the
  text is longer than 3 characters.
\<close>

theorem extract_features_all_caps:
  assumes "\<forall>c < 128. char_isupper U c = is_upper c \<and> char_islower U c = is_lower c
                    \<and> \<not> char_istitle U c"
  shows "map_of (extract_features U (ascii ''ALL CAPS!!!'')) ''all_caps'' = Some (VBool True)
   \<and> map_of (extract_features U (ascii ''ALL CAPS!!!'')) ''exclamation_count'' = Some (VInt 3)
   \<and> map_of (extract_features U (ascii ''ALL CAPS!!!'')) ''uppercase_ratio'' = Some (VNum (7 / 11))
   \<and> map_of (extract_features U []) ''uppercase_ratio'' = Some (VNum 0)
   \<and> map_of (extract_features U text) ''uppercase_ratio''
        = Some (VNum (of_nat (length (filter (char_isupper U) text)) / of_nat (max (length text) 1)))
   \<and> map_of (extract_features U text) ''all_caps''
        = Some (VBool (str_isupper U text \<and> length text > 3))"
proof -
  have up: "char_isupper U c = is_upper c" if "c < 128" for c
    using assms that by blast
  have lo: "char_islower U c = is_lower c" if "c < 128" for c
    using assms that by blast
  have ti: "char_istitle U c = False" if "c < 128" for c
    using assms that by blast
  have caps: "map_of (extract_features U (ascii ''ALL CAPS!!!'')) ''all_caps'' = Some (VBool True)"
    by (simp add: feature_eval up lo ti)
  have excl: "map_of (extract_features U (ascii ''ALL CAPS!!!'')) ''exclamation_count'' = Some (VInt 3)"
    by (simp add: feature_eval)
  have ratio: "map_of (extract_features U (ascii ''ALL CAPS!!!'')) ''uppercase_ratio'' = Some (VNum (7 / 11))"
    by (simp add: feature_eval up)
  have empty: "map_of (extract_features U []) ''uppercase_ratio'' = Some (VNum 0)"
    by (simp add: extract_features_def)
  have gen_ratio: "map_of (extract_features U text) ''uppercase_ratio''
        = Some (VNum (of_nat (length (filter (char_isupper U) text)) / of_nat (max (length text) 1)))"
    by (simp add: extract_features_def str_isupper_def)
  have gen_caps: "map_of (extract_features U text) ''all_caps''
        = Some (VBool (str_isupper U text \<and> length text > 3))"
    by (simp add: extract_features_def)
  from caps excl ratio empty gen_ratio gen_caps show ?thesis by (intro conjI)
qed

theorem extract_features_all_caps_witness:
  "str_isupper ascii_table (ascii ''LOUD'') \<and> length (ascii ''LOUD'') > 3
   \<and> map_of (extract_features ascii_table (ascii ''LOUD'')) ''all_caps'' = Some (VBool True)
   \<and> \<not> str_isupper ascii_table (ascii ''Loud'')
   \<and> map_of (extract_features ascii_table (ascii ''Loud'')) ''all_caps'' = Some (VBool False)
   \<and> str_isupper ascii_table (ascii ''OK!'') \<and> \<not> length (ascii ''OK!'') > 3
   \<and> map_of (extract_features ascii_table (ascii ''OK!'')) ''all_caps'' = Some (VBool False)
   \<and> map_of (extract_features ascii_table (ascii ''ALL CAPS!!!'')) ''uppercase_ratio''
        = Some (VNum (7 / 11))"
proof -
  have table: "\<forall>c < 128. char_isupper ascii_table c = is_upper c
                 \<and> char_islower ascii_table c = is_lower c \<and> \<not> char_istitle ascii_table c"
    by (simp add: ascii_table_def)
  have a: "str_isupper ascii_table (ascii ''LOUD'') \<and> length (ascii ''LOUD'') > 3"
    by (simp add: ascii_def is_upper_def is_lower_def str_isupper_def ascii_table_def)
  have b: "\<not> str_isupper ascii_table (ascii ''Loud'')"
    by (simp add: ascii_def is_upper_def is_lower_def str_isupper_def ascii_table_def)
  have c: "str_isupper ascii_table (ascii ''OK!'') \<and> \<not> length (ascii ''OK!'') > 3"
    by (simp add: ascii_def is_upper_def is_lower_def str_isupper_def ascii_table_def)
  show ?thesis
    using extract_features_all_caps [OF table, of "ascii ''LOUD''"]
      extract_features_all_caps [OF table, of "ascii ''Loud''"]
      extract_features_all_caps [OF table, of "ascii ''OK!''"] a b c
    by simp
qed

text \<open>Claim C4 as stated fails: the uppercase ratio of \<open>ALL CAPS!!!\<close> is not 1. The text is
  ASCII, so the case properties of the ASCII characters are all that is read.\<close>

theorem all_caps_ratio_not_one:
  "map_of (extract_features ascii_table (ascii ''ALL CAPS!!!'')) ''uppercase_ratio'' \<noteq> Some (VNum 1)"
  by (simp add: feature_eval ascii_table_def)

section \<open>Blank texts\<close>

text \<open>The guard of \<open>analyze\<close> holds exactly for the texts made of white space only, and
  \<open>clean_text\<close> turns every such text into the empty string.\<close>

lemma strip_eq_Nil: "strip s = [] \<longleftrightarrow> (\<forall>c \<in> set s. is_space c)"
proof
  assume "strip s = []"
  then have "\<forall>c \<in> set (dropWhile is_space s). is_space c"
    by (simp add: strip_def dropWhile_eq_Nil_conv)
  then have "dropWhile is_space s = []"
    by (metis hd_dropWhile list.set_sel(1))
  then show "\<forall>c \<in> set s. is_space c"
    by (simp add: dropWhile_eq_Nil_conv)
next
  assume "\<forall>c \<in> set s. is_space c"
  then show "strip s = []"
    by (auto simp: strip_def dest: set_dropWhileD)
qed

lemma blank_guard: "(text = [] \<or> length (strip text) = 0) \<longleftrightarrow> (\<forall>c \<in> set text. is_space c)"
  by (auto simp: strip_eq_Nil)

lemma str_replace_absent:
  "old \<noteq> [] \<Longrightarrow> hd old \<notin> set s \<Longrightarrow> str_replace old new s = s"
proof (induction s)
  case Nil
  then show ?case by simp
next
  case (Cons c cs)
  then have "\<not> prefix old (c # cs)"
    by (cases old) auto
  with Cons show ?case by simp
qed

lemma convert_emojis_blank:
  assumes "\<forall>c \<in> set text. is_space c"
  shows "convert_emojis text = text"
proof -
  have step: "str_replace emoji new text = text"
    if "emoji \<noteq> []" "\<not> is_space (hd emoji)" for emoji new
    using that assms by (intro str_replace_absent) auto
  show ?thesis
    unfolding convert_emojis_def emoji_dict_def
    by (simp add: step is_space_def)
qed

lemma re_sub_no_match:
  "(\<And>c cs. c \<in> set s \<Longrightarrow> m (c # cs) = None) \<Longrightarrow> re_sub m s = s"
  by (induction s) auto

lemma match_url_space: "is_space c \<Longrightarrow> match_url (c # cs) = None"
  by (auto simp: match_url_def ascii_def is_space_def)

lemma match_mention_space: "is_space c \<Longrightarrow> match_mention U (c # cs) = None"
  by (auto simp: match_mention_def is_space_def)

lemma match_hashtag_space: "is_space c \<Longrightarrow> match_hashtag U (c # cs) = None"
  by (auto simp: match_hashtag_def is_space_def)

lemma match_tag_space: "is_space c \<Longrightarrow> match_tag (c # cs) = None"
  by (auto simp: match_tag_def is_space_def Let_def)

lemma re_sub_spaces_blank:
  assumes "\<forall>c \<in> set text. is_space c"
  shows "\<forall>c \<in> set (re_sub match_spaces text). is_space c"
proof (cases "text")
  case Nil
  then show ?thesis by simp
next
  case (Cons c cs)
  have tw: "takeWhile is_space text = text"
    using assms by (simp add: takeWhile_eq_all_conv)
  then have "match_spaces (c # cs) = Some (Suc (length cs), [32])"
    using Cons by (simp add: match_spaces_def)
  then have "re_sub match_spaces text = [32]"
    using Cons by simp
  then show ?thesis by (simp add: is_space_def)
qed

lemma clean_text_blank:
  assumes "\<forall>c \<in> set text. is_space c"
  shows "clean_text U text = []"
proof (cases "text = []")
  case True
  then show ?thesis by (simp add: clean_text_def)
next
  case False
  have 1: "convert_emojis text = text"
    using assms by (rule convert_emojis_blank)
  have 2: "re_sub match_url text = text"
    using assms by (intro re_sub_no_match match_url_space) auto
  have 3: "re_sub (match_mention U) text = text"
    using assms by (intro re_sub_no_match match_mention_space) auto
  have 4: "re_sub (match_hashtag U) text = text"
    using assms by (intro re_sub_no_match match_hashtag_space) auto
  have 5: "re_sub match_tag text = text"
    using assms by (intro re_sub_no_match match_tag_space) auto
  have "strip (re_sub match_spaces text) = []"
    using re_sub_spaces_blank [OF assms] by (simp add: strip_eq_Nil)
  then show ?thesis
    using False by (simp add: clean_text_def Let_def 1 2 3 4 5)
qed

section \<open>The analysis pipeline on blank and non-blank texts\<close>

text \<open>A text that is empty or all white space is rejected before the classifier is called.\<close>

lemma analyze_blank:
  assumes "\<forall>c \<in> set s. is_space c"
  shows "analyze model elapsed s seen = (Inl empty_text_error, seen)"
  using assms by (simp add: analyze_def blank_guard [symmetric])

lemma process_result_shape:
  assumes "process_result label score = Inr d"
  shows "\<exists>sentiment stars emoji sentiment_score.
           d = [(''sentiment'', VStr sentiment), (''confidence'', VNum (py_round score 4)),
                (''stars'', VInt stars), (''emoji'', VStr emoji),
                (''sentiment_score'', sentiment_score), (''raw_label'', VStr label)]
         \<and> sentiment \<in> {ascii ''POSITIVE'', ascii ''NEGATIVE'', ascii ''NEUTRAL''}"
  using assms
  by (auto simp: process_result_def Let_def split: if_splits list.splits sum.splits)

lemma map_of_dict_update:
  "map_of (dict_update d kvs) k =
     (case map_of (rev kvs) k of None \<Rightarrow> map_of d k | Some v \<Rightarrow> Some v)"
proof (induction kvs arbitrary: d)
  case Nil
  then show ?case by (simp add: dict_update_def)
next
  case (Cons kv kvs)
  obtain k' v' where kv: "kv = (k', v')" by (cases kv)
  have "dict_update d (kv # kvs) = dict_update (AList.update k' v' d) kvs"
    by (simp add: dict_update_def kv)
  then show ?case
    by (simp add: Cons.IH kv update_conv' map_add_def split: option.splits)
qed

text \<open>What \<open>analyze\<close> returns on a text that passes its guard.\<close>

lemma analyze_nonblank:
  assumes "\<not> (\<forall>c \<in> set s. is_space c)"
  shows "\<exists>r. analyze model elapsed s seen
             = (Inr r, seen @ [if length s > 500 then take 500 s else s])
         \<and> map_of r ''text_original'' = Some (VStr s)
         \<and> (case map_of r ''sentiment'' of
              None \<Rightarrow> map_of r ''text_truncated'' = None \<and> map_of r ''error'' \<noteq> None
            | Some v \<Rightarrow>
                v \<in> VStr ` {ascii ''POSITIVE'', ascii ''NEGATIVE'', ascii ''NEUTRAL''}
              \<and> (\<exists>x. map_of r ''confidence'' = Some (VNum x))
              \<and> map_of r ''text_truncated'' = Some (VBool (length s > 500))
              \<and> map_of r ''text_analyzed''
                   = Some (VStr (if length s > 500 then take 500 s else s)))"
proof -
  define tt where "tt = (if length s > 500 then take 500 s else s)"
  have guard: "\<not> (s = [] \<or> length (strip s) = 0)"
    using assms blank_guard [of s] by blast
  show ?thesis
  proof (cases "model tt")
    case (Inl msg)
    then show ?thesis
      using guard by (simp add: analyze_def Let_def tt_def)
  next
    case (Inr raw)
    obtain label score where raw: "raw = (label, score)" by (cases raw)
    show ?thesis
    proof (cases "process_result label score")
      case (Inl e)
      then show ?thesis
        using guard Inr raw by (simp add: analyze_def Let_def tt_def)
    next
      case pr: (Inr d)
      from process_result_shape [OF pr] obtain sentiment stars emoji sentiment_score where
        d: "d = [(''sentiment'', VStr sentiment), (''confidence'', VNum (py_round score 4)),
                (''stars'', VInt stars), (''emoji'', VStr emoji),
                (''sentiment_score'', sentiment_score), (''raw_label'', VStr label)]"
        and sent: "sentiment \<in> {ascii ''POSITIVE'', ascii ''NEGATIVE'', ascii ''NEUTRAL''}"
        by blast
      have "analyze model elapsed s seen =
          (Inr (dict_update d
                 [(''text_original'', VStr s),
                  (''text_analyzed'', VStr tt),
                  (''text_truncated'', VBool (length s > 500)),
                  (''text_length'', VInt (int (length s))),
                  (''processing_time'', VNum (py_round elapsed 3))]),
           seen @ [tt])"
        using guard Inr raw pr by (simp add: analyze_def Let_def tt_def)
      then show ?thesis
        using sent by (simp add: map_of_dict_update d tt_def)
    qed
  qed
qed

lemma analyze_batch_from_text_original:
  "map (\<lambda>r. map_of r ''text_original'') (fst (analyze_batch_from model elapsed i texts seen))
     = map (\<lambda>t. Some (VStr (if (\<forall>c \<in> set t. is_space c) \<and> length t > 100
                              then take 100 t @ ascii ''...'' else t))) texts"
proof (induction texts arbitrary: i seen)
  case Nil
  then show ?case by simp
next
  case (Cons t texts)
  show ?case
  proof (cases "\<forall>c \<in> set t. is_space c")
    case True
    then show ?thesis
      by (simp add: analyze_blank Cons.IH Let_def split_beta)
  next
    case False
    from analyze_nonblank [OF False, of model "elapsed i" seen] obtain r where
      "analyze model (elapsed i) t seen = (Inr r, seen @ [if length t > 500 then take 500 t else t])"
      "map_of r ''text_original'' = Some (VStr t)"
      by blast
    then show ?thesis
      using False by (auto simp add: Cons.IH update_conv' Let_def split_beta)
  qed
qed


lemma analyze_batch_from_calls:
  "snd (analyze_batch_from model elapsed i texts seen)
     = seen @ map (\<lambda>t. if length t > 500 then take 500 t else t)
                  (filter (\<lambda>t. \<not> (\<forall>c \<in> set t. is_space c)) texts)"
proof (induction texts arbitrary: i seen)
  case Nil
  then show ?case by simp
next
  case (Cons t texts)
  show ?case
  proof (cases "\<forall>c \<in> set t. is_space c")
    case True
    then show ?thesis
      by (simp add: analyze_blank Cons.IH Let_def split_beta)
  next
    case False
    from analyze_nonblank [OF False, of model "elapsed i" seen] obtain r where
      "analyze model (elapsed i) t seen = (Inr r, seen @ [if length t > 500 then take 500 t else t])"
      by blast
    then show ?thesis
      using False by (auto simp add: Cons.IH Let_def split_beta)
  qed
qed

lemma analyze_batch_from_flags:
  "list_all2 (\<lambda>t r. has_key ''sentiment'' r \<longrightarrow>
                 map_of r ''text_truncated'' = Some (VBool (length t > 500)))
     texts (fst (analyze_batch_from model elapsed i texts seen))"
proof (induction texts arbitrary: i seen)
  case Nil
  then show ?case by simp
next
  case (Cons t texts)
  show ?case
  proof (cases "\<forall>c \<in> set t. is_space c")
    case True
    then show ?thesis
      using Cons.IH [of "Suc i" seen]
      by (simp add: analyze_blank Let_def split_beta has_key_def)
  next
    case False
    from analyze_nonblank [OF False, of model "elapsed i" seen] obtain r where
      r: "analyze model (elapsed i) t seen = (Inr r, seen @ [if length t > 500 then take 500 t else t])"
      and c: "case map_of r ''sentiment'' of
              None \<Rightarrow> map_of r ''text_truncated'' = None \<and> map_of r ''error'' \<noteq> None
            | Some v \<Rightarrow>
                v \<in> VStr ` {ascii ''POSITIVE'', ascii ''NEGATIVE'', ascii ''NEUTRAL''}
              \<and> (\<exists>x. map_of r ''confidence'' = Some (VNum x))
              \<and> map_of r ''text_truncated'' = Some (VBool (length t > 500))
              \<and> map_of r ''text_analyzed''
                   = Some (VStr (if length t > 500 then take 500 t else t))"
      by blast
    have "has_key ''sentiment'' r \<longrightarrow> map_of r ''text_truncated'' = Some (VBool (length t > 500))"
      using c by (auto simp: has_key_def split: option.splits)
    then show ?thesis
      using r Cons.IH [of "Suc i" "seen @ [if length t > 500 then take 500 t else t]"]
      by (simp add: Let_def split_beta has_key_def update_conv')
  qed
qed

lemma sample_result:
  "process_result (ascii ''POSITIVE'') (9 / 10) = Inr
     [(''sentiment'', VStr (ascii ''POSITIVE'')),
      (''confidence'', VNum (py_round (9 / 10) 4)),
      (''stars'', VInt 5),
      (''emoji'', VStr [128522]),
      (''sentiment_score'', VNum (py_round (9 / 10) 4)),
      (''raw_label'', VStr (ascii ''POSITIVE''))]"
  by (simp add: process_result_def not_star_POSITIVE upper_POSITIVE)

lemma analyze_sample:
  assumes "\<not> (\<forall>c \<in> set s. is_space c)"
  shows "analyze sample_model elapsed s seen =
     (Inr [(''sentiment'', VStr (ascii ''POSITIVE'')),
           (''confidence'', VNum (py_round (9 / 10) 4)),
           (''stars'', VInt 5),
           (''emoji'', VStr [128522]),
           (''sentiment_score'', VNum (py_round (9 / 10) 4)),
           (''raw_label'', VStr (ascii ''POSITIVE'')),
           (''text_original'', VStr s),
           (''text_analyzed'', VStr (if length s > 500 then take 500 s else s)),
           (''text_truncated'', VBool (length s > 500)),
           (''text_length'', VInt (int (length s))),
           (''processing_time'', VNum (py_round elapsed 3))],
      seen @ [if length s > 500 then take 500 s else s])"
proof -
  have guard: "\<not> (s = [] \<or> length (strip s) = 0)"
    using assms blank_guard [of s] by blast
  show ?thesis
    using guard
    by (simp add: analyze_def Let_def sample_model_def sample_result dict_update_def)
qed

text \<open>
  Claim C6. For every text that is empty or consists of white space only, \<open>analyze\<close> raises
  the ValueError of its guard and the classifier is not called (the log of classifier calls is
  unchanged). The single-text endpoint, with or without preprocessing, then leaves the
  application state as it was: no record is appended to the history and the classifier has
  not been called; when the text passes the length check the response is status 500 with
  the message of that ValueError. The error is distinct from a classifier failure: when the
  classifier fails on a text that is not blank, \<open>analyze\<close> raises nothing and returns an
  error record.
\<close>

theorem blank_text_rejected:
  assumes "\<forall>c \<in> set text. is_space c"
  shows "analyze model elapsed text seen = (Inl empty_text_error, seen)
       \<and> (req_text req = Some text \<longrightarrow>
            snd (analyze_text U model elapsed now req st) = st
          \<and> (length text \<le> 5000 \<longrightarrow>
               fst (analyze_text U model elapsed now req st)
                 = (500, error_body (exc_str empty_text_error) ''ANALYSIS_ERROR'')))
       \<and> (\<not> (\<forall>c \<in> set t. is_space c) \<and> model (if length t > 500 then take 500 t else t) = Inl msg \<longrightarrow>
            analyze model elapsed t seen
              = (Inr [(''error'', VStr msg), (''text_original'', VStr t),
                      (''processing_time'', VNum (py_round elapsed 3))],
                 seen @ [if length t > 500 then take 500 t else t]))"
proof -
  have raised: "analyze model elapsed s seen' = (Inl empty_text_error, seen')"
    if "\<forall>c \<in> set s. is_space c" for s seen'
    using that by (rule analyze_blank)
  have cleaned: "\<forall>c \<in> set (clean_text U text). is_space c"
    using assms by (simp add: clean_text_blank)
  have endpoint: "snd (analyze_text U model elapsed now req st) = st
          \<and> (length text \<le> 5000 \<longrightarrow>
               fst (analyze_text U model elapsed now req st)
                 = (500, error_body (exc_str empty_text_error) ''ANALYSIS_ERROR''))"
    if "req_text req = Some text"
    using that raised [OF assms] raised [OF cleaned]
    by (simp add: analyze_text_def Let_def)
  have failure: "analyze model elapsed t seen
              = (Inr [(''error'', VStr msg), (''text_original'', VStr t),
                      (''processing_time'', VNum (py_round elapsed 3))],
                 seen @ [if length t > 500 then take 500 t else t])"
    if "\<not> (\<forall>c \<in> set t. is_space c)"
      and "model (if length t > 500 then take 500 t else t) = Inl msg"
  proof -
    have "\<not> (t = [] \<or> length (strip t) = 0)"
      using that(1) blank_guard [of t] by blast
    then show ?thesis
      using that(2) by (simp add: analyze_def Let_def)
  qed
  from raised [OF assms] endpoint failure show ?thesis by blast
qed

theorem blank_text_rejected_witness:
  "is_space 32
   \<and> analyze sample_model 0 [32, 32] [] = (Inl empty_text_error, [])
   \<and> analyze_text ascii_table sample_model 0 (ascii ''now'')
        \<lparr>req_text = Some [32, 32], req_texts = None, req_preprocess = None\<rparr>
        \<lparr>history = [], calls = []\<rparr>
       = ((500, error_body (exc_str empty_text_error) ''ANALYSIS_ERROR''),
          \<lparr>history = [], calls = []\<rparr>)"
  using blank_text_rejected [of "[32, 32]" sample_model 0 "[]"
          "\<lparr>req_text = Some [32, 32], req_texts = None, req_preprocess = None\<rparr>"
          ascii_table "ascii ''now''" "\<lparr>history = [], calls = []\<rparr>"]
  by (simp add: is_space_def prod_eq_iff)


text \<open>
  Claim C7, as amended. For every text that is not blank, \<open>analyze\<close> passes to the
  classifier exactly the first 500 characters when the text is longer than 500 characters
  and the whole text otherwise; the record it returns has \<open>text_original\<close> equal to the
  whole text; a successful record has \<open>text_truncated\<close> true exactly when the text is
  longer than 500 characters, and an error record of a classifier failure has no
  \<open>text_truncated\<close> field. In a batch, the classifier receives the same prefixes of the
  texts that are not blank, in order; every successful record carries the same flag; and
  \<open>text_original\<close> is the whole text of the item, except for a rejected blank item longer
  than 100 characters, where it is the first 100 characters followed by \<open>...\<close>.
\<close>

theorem truncation_and_text_original:
  assumes "\<not> (\<forall>c \<in> set text. is_space c)"
  shows "(\<exists>r. analyze model elapsed text seen
               = (Inr r, seen @ [if length text > 500 then take 500 text else text])
           \<and> map_of r ''text_original'' = Some (VStr text)
           \<and> (if has_key ''sentiment'' r
               then map_of r ''text_truncated'' = Some (VBool (length text > 500))
               else has_key ''error'' r \<and> map_of r ''text_truncated'' = None))
       \<and> map (\<lambda>r. map_of r ''text_original'') (fst (analyze_batch model clock texts seen))
           = map (\<lambda>t. Some (VStr (if (\<forall>c \<in> set t. is_space c) \<and> length t > 100
                                    then take 100 t @ ascii ''...'' else t))) texts
       \<and> list_all2 (\<lambda>t r. has_key ''sentiment'' r \<longrightarrow>
                       map_of r ''text_truncated'' = Some (VBool (length t > 500)))
           texts (fst (analyze_batch model clock texts seen))
       \<and> snd (analyze_batch model clock texts seen)
           = seen @ map (\<lambda>t. if length t > 500 then take 500 t else t)
                        (filter (\<lambda>t. \<not> (\<forall>c \<in> set t. is_space c)) texts)"
proof -
  from analyze_nonblank [OF assms, of model elapsed seen] obtain r where
    r: "analyze model elapsed text seen
          = (Inr r, seen @ [if length text > 500 then take 500 text else text])"
    and orig: "map_of r ''text_original'' = Some (VStr text)"
    and c: "case map_of r ''sentiment'' of
              None \<Rightarrow> map_of r ''text_truncated'' = None \<and> map_of r ''error'' \<noteq> None
            | Some v \<Rightarrow>
                v \<in> VStr ` {ascii ''POSITIVE'', ascii ''NEGATIVE'', ascii ''NEUTRAL''}
              \<and> (\<exists>x. map_of r ''confidence'' = Some (VNum x))
              \<and> map_of r ''text_truncated'' = Some (VBool (length text > 500))
              \<and> map_of r ''text_analyzed''
                   = Some (VStr (if length text > 500 then take 500 text else text))"
    by blast
  have flag: "if has_key ''sentiment'' r
               then map_of r ''text_truncated'' = Some (VBool (length text > 500))
               else has_key ''error'' r \<and> map_of r ''text_truncated'' = None"
    using c by (auto simp: has_key_def split: option.splits)
  have single: "\<exists>r. analyze model elapsed text seen
               = (Inr r, seen @ [if length text > 500 then take 500 text else text])
           \<and> map_of r ''text_original'' = Some (VStr text)
           \<and> (if has_key ''sentiment'' r
               then map_of r ''text_truncated'' = Some (VBool (length text > 500))
               else has_key ''error'' r \<and> map_of r ''text_truncated'' = None)"
    using r orig flag by blast
  show ?thesis
    unfolding analyze_batch_def
    using single analyze_batch_from_text_original [of model clock 0 texts seen]
      analyze_batch_from_flags [of texts model clock 0 seen]
      analyze_batch_from_calls [of model clock 0 texts seen]
    by (intro conjI)
qed

theorem truncation_and_text_original_witness:
  "\<not> is_space 97
   \<and> (\<exists>r. analyze sample_model 0 (replicate 501 97) [] = (Inr r, [replicate 500 97])
        \<and> map_of r ''text_original'' = Some (VStr (replicate 501 97))
        \<and> map_of r ''text_truncated'' = Some (VBool True))"
proof -
  have nb: "\<not> (\<forall>c \<in> set (replicate 501 (97 :: nat)). is_space c)"
    by (simp add: is_space_def)
  have valid: "has_key ''sentiment'' r"
    if "analyze sample_model 0 (replicate 501 97) [] = (Inr r, seen)" for r seen
    using that by (auto simp add: analyze_sample [OF nb] has_key_def)
  from truncation_and_text_original [OF nb, of sample_model 0 "[]"] obtain r where
    r: "analyze sample_model 0 (replicate 501 97) []
          = (Inr r, [] @ [if length (replicate 501 (97 :: nat)) > 500
                          then take 500 (replicate 501 97) else replicate 501 97])"
    and orig: "map_of r ''text_original'' = Some (VStr (replicate 501 97))"
    and flag: "if has_key ''sentiment'' r
               then map_of r ''text_truncated'' = Some (VBool (length (replicate 501 (97 :: nat)) > 500))
               else has_key ''error'' r \<and> map_of r ''text_truncated'' = None"
    by blast
  have "map_of r ''text_truncated'' = Some (VBool True)"
    using flag valid [OF r] by simp
  moreover have "analyze sample_model 0 (replicate 501 97) [] = (Inr r, [replicate 500 97])"
    using r by simp
  moreover have "\<not> is_space 97"
    by (simp add: is_space_def)
  ultimately show ?thesis
    using orig by blast
qed

lemma long_blank_item:
  "fst (analyze_batch sample_model no_delay [replicate 101 32] [])
     = [[(''index'', VInt 0), (''error'', VStr (exc_str empty_text_error)),
         (''text_original'', VStr (replicate 100 32 @ ascii ''...''))]]"
proof -
  have "analyze sample_model (no_delay 0) (replicate 101 32) [] = (Inl empty_text_error, [])"
    by (rule analyze_blank) (simp add: is_space_def)
  then show ?thesis
    by (simp add: analyze_batch_def)
qed

lemma long_blank_differs: "replicate 100 32 @ ascii ''...'' \<noteq> replicate 101 (32 :: nat)"
proof
  assume "replicate 100 32 @ ascii ''...'' = replicate 101 (32 :: nat)"
  then have "length (replicate 100 (32 :: nat) @ ascii ''...'') = length (replicate 101 (32 :: nat))"
    by (rule arg_cong)
  then show False by (simp add: ascii_def)
qed

text \<open>Claim C7 as stated fails: the batch record of a text of 101 spaces has as
  \<open>text_original\<close> 100 spaces followed by \<open>...\<close>, not the text submitted.\<close>

theorem batch_text_original_shortened:
  "map_of (hd (fst (analyze_batch sample_model no_delay [replicate 101 32] []))) ''text_original''
     = Some (VStr (replicate 100 32 @ ascii ''...''))
   \<and> replicate 100 32 @ ascii ''...'' \<noteq> replicate 101 (32 :: nat)"
  by (simp add: long_blank_item long_blank_differs)

section \<open>The endpoints and the History Store\<close>


lemma sample_not_blank: "\<not> (\<forall>c \<in> set (ascii ''ok go''). is_space c)"
  by (simp add: ascii_def is_space_def)



lemma sample_batch:
  "analyze_batch sample_model no_delay [ascii ''ok go''] [] =
     ([[(''sentiment'', VStr (ascii ''POSITIVE'')),
        (''confidence'', VNum (py_round (9 / 10) 4)),
        (''stars'', VInt 5),
        (''emoji'', VStr [128522]),
        (''sentiment_score'', VNum (py_round (9 / 10) 4)),
        (''raw_label'', VStr (ascii ''POSITIVE'')),
        (''text_original'', VStr (ascii ''ok go'')),
        (''text_analyzed'', VStr (ascii ''ok go'')),
        (''text_truncated'', VBool False),
        (''text_length'', VInt 5),
        (''processing_time'', VNum (py_round 0 3)),
        (''index'', VInt 0)]],
      [ascii ''ok go''])"
  by (simp add: analyze_batch_def analyze_sample [OF sample_not_blank] no_delay_def)
     (simp add: ascii_def)





section \<open>The two statistics reductions\<close>

lemma exc_bind_Inr: "exc_bind m f = Inr y \<longleftrightarrow> (\<exists>x. m = Inr x \<and> f x = Inr y)"
  by (cases m) (simp_all add: exc_bind_def)

lemma exc_bind_Inl:
  "exc_bind m f = Inl e \<longleftrightarrow> m = Inl e \<or> (\<exists>x. m = Inr x \<and> f x = Inl e)"
  by (cases m) (simp_all add: exc_bind_def)

text \<open>
  Claim C8, as amended. On every sequence of records on which the history-statistics
  reduction returns a snapshot, the batch-statistics reduction returns too, with the same
  POSITIVE/NEGATIVE/NEUTRAL counts and the same mean confidence rounded to 4 decimals. This
  includes the sequences with no valid record: there the batch reduction returns the empty
  dict and the history snapshot has neither counts nor a mean.
\<close>

theorem batch_stats_agree_with_history_stats:
  assumes "get_statistics rs = Inr s"
  shows "\<exists>b. calculate_batch_stats rs = Inr b
           \<and> map_of b ''sentiments'' = map_of s ''sentiments''
           \<and> map_of b ''average_confidence'' = map_of s ''average_confidence''
           \<and> (filter (has_key ''sentiment'') rs = [] \<longrightarrow>
                 b = [] \<and> map_of s ''sentiments'' = None
               \<and> map_of s ''average_confidence'' = None)"
proof (cases "filter (has_key ''sentiment'') rs = []")
  case True
  then show ?thesis
    using assms
    by (auto simp add: get_statistics_def calculate_batch_stats_def Let_def split: if_splits)
next
  case False
  then have ne: "rs \<noteq> []" by auto
  from assms False ne obtain sentiments confidences average_confidence where
    "column ''sentiment'' (filter (has_key ''sentiment'') rs) = Inr sentiments"
    "column ''confidence'' (filter (has_key ''sentiment'') rs) = Inr confidences"
    "average confidences 4 = Inr average_confidence"
    "map_of s ''sentiments'' = Some (VDict
        [(''positive'', VInt (py_count (VStr (ascii ''POSITIVE'')) sentiments)),
         (''negative'', VInt (py_count (VStr (ascii ''NEGATIVE'')) sentiments)),
         (''neutral'', VInt (py_count (VStr (ascii ''NEUTRAL'')) sentiments))])"
    "map_of s ''average_confidence'' = Some average_confidence"
    by (auto simp add: get_statistics_def Let_def exc_bind_Inr)
  then show ?thesis
    using False
    by (simp add: calculate_batch_stats_def Let_def exc_bind_def)
qed

lemma sample_history_stats:
  "get_statistics sample_history = Inr
     [(''total_analyzed'', VInt 2),
      (''valid_results'', VInt 1),
      (''errors'', VInt 1),
      (''sentiments'', VDict [(''positive'', VInt 1), (''negative'', VInt 0), (''neutral'', VInt 0)]),
      (''percentages'', VDict [(''positive'', VNum 100), (''negative'', VNum 0), (''neutral'', VNum 0)]),
      (''average_confidence'', VNum (9 / 10)),
      (''average_stars'', VInt 0),
      (''average_processing_time'', VInt 0),
      (''last_analysis'', VStr (ascii ''2024-01-01T00:00:00''))]"
  by (simp add: get_statistics_def sample_history_def has_key_def lookup_def exc_bind_def
      average_def py_count_def percentage_def Let_def ascii_def round_eval)

theorem batch_stats_agree_with_history_stats_witness:
  "result_field ''sentiments'' (get_statistics sample_history)
     = Some (VDict [(''positive'', VInt 1), (''negative'', VInt 0), (''neutral'', VInt 0)])
   \<and> result_field ''sentiments'' (calculate_batch_stats sample_history)
     = Some (VDict [(''positive'', VInt 1), (''negative'', VInt 0), (''neutral'', VInt 0)])
   \<and> result_field ''average_confidence'' (get_statistics sample_history) = Some (VNum (9 / 10))
   \<and> result_field ''average_confidence'' (calculate_batch_stats sample_history)
     = Some (VNum (9 / 10))"
  using batch_stats_agree_with_history_stats [OF sample_history_stats]
  by (auto simp add: result_field_def sample_history_stats)

text \<open>When the batch reduction raises, the history reduction raises the same exception: the
  two read \<open>sentiment\<close> and \<open>confidence\<close> in the same order, and the history reduction
  cannot fail on \<open>stars\<close> or \<open>processing_time\<close> before that.\<close>

lemma column_present:
  assumes "\<forall>r \<in> set rs. has_key k r"
  shows "\<exists>vs. column k rs = Inr vs"
  using assms
  by (induction rs) (auto simp add: has_key_def lookup_def exc_bind_def)

lemma batch_stats_raise:
  assumes "calculate_batch_stats rs = Inl e"
  shows "get_statistics rs = Inl e"
proof -
  have False if "filter (has_key ''sentiment'') rs = []"
    using assms that by (simp add: calculate_batch_stats_def Let_def)
  then have v: "filter (has_key ''sentiment'') rs \<noteq> []" by blast
  then have ne: "rs \<noteq> []" by auto
  obtain stars where stars:
    "column ''stars'' (filter (has_key ''stars'') (filter (has_key ''sentiment'') rs)) = Inr stars"
    using column_present [of "filter (has_key ''stars'') (filter (has_key ''sentiment'') rs)" "''stars''"]
    by auto
  obtain times where times:
    "column ''processing_time''
       (filter (has_key ''processing_time'') (filter (has_key ''sentiment'') rs)) = Inr times"
    using column_present [of "filter (has_key ''processing_time'') (filter (has_key ''sentiment'') rs)"
        "''processing_time''"]
    by auto
  show ?thesis
    using assms v ne stars times
    by (auto simp add: calculate_batch_stats_def get_statistics_def Let_def exc_bind_Inl
        exc_bind_def split: sum.splits)
qed

text \<open>Claim C8 as stated fails: on the records of a batch response, here the one record
  of the text \<open>ok go\<close>, the batch reduction returns the counts 1, 0 and 0, and the history
  reduction raises KeyError for \<open>timestamp\<close>, the field that only the History Store adds.\<close>

theorem history_stats_need_timestamp:
  "result_field ''sentiments''
      (calculate_batch_stats (fst (analyze_batch sample_model no_delay [ascii ''ok go''] [])))
     = Some (VDict [(''positive'', VInt 1), (''negative'', VInt 0), (''neutral'', VInt 0)])
   \<and> get_statistics (fst (analyze_batch sample_model no_delay [ascii ''ok go''] []))
     = Inl (KeyError ''timestamp'')
   \<and> result_field ''sentiments''
      (get_statistics (fst (analyze_batch sample_model no_delay [ascii ''ok go''] []))) = None"
  by (simp only: sample_batch fst_conv)
     (simp add: calculate_batch_stats_def get_statistics_def has_key_def lookup_def
        exc_bind_def average_def py_count_def result_field_def Let_def ascii_def)

section \<open>Count identities of the statistics\<close>




text \<open>Every record that the analysis returns, alone or in a batch, has one of the three
  sentiments when it has one, and the timestamp of the History Store does not change it.\<close>

lemma analyze_enumerated:
  assumes "analyze model elapsed s seen = (Inr r, seen')" and "map_of r ''sentiment'' = Some v"
  shows "v \<in> {VStr (ascii ''POSITIVE''), VStr (ascii ''NEGATIVE''), VStr (ascii ''NEUTRAL'')}"
proof (cases "\<forall>c \<in> set s. is_space c")
  case True
  then show ?thesis
    using assms(1) by (simp add: analyze_blank)
next
  case False
  from analyze_nonblank [OF False, of model elapsed seen] assms
  show ?thesis by auto
qed

lemma save_analysis_enumerated:
  assumes "\<forall>r \<in> set h. \<forall>v. map_of r ''sentiment'' = Some v \<longrightarrow>
             v \<in> {VStr (ascii ''POSITIVE''), VStr (ascii ''NEGATIVE''), VStr (ascii ''NEUTRAL'')}"
    and "analyze model elapsed s seen = (Inr r, seen')"
  shows "\<forall>r \<in> set (save_analysis now r h). \<forall>v. map_of r ''sentiment'' = Some v \<longrightarrow>
             v \<in> {VStr (ascii ''POSITIVE''), VStr (ascii ''NEGATIVE''), VStr (ascii ''NEUTRAL'')}"
proof -
  have new: "\<forall>v. map_of (AList.update ''timestamp'' (VStr now) r) ''sentiment'' = Some v \<longrightarrow>
             v \<in> {VStr (ascii ''POSITIVE''), VStr (ascii ''NEGATIVE''), VStr (ascii ''NEUTRAL'')}"
    using analyze_enumerated [OF assms(2)] by (simp add: update_conv')
  have "set (save_analysis now r h) \<subseteq> set (h @ [AList.update ''timestamp'' (VStr now) r])"
    by (auto simp add: save_analysis_def Let_def last_n_def slice_from_def dest: in_set_dropD)
  then show ?thesis
    using assms(1) new by auto
qed



end
